theory Spec2Isabelle
  imports Main "HOL-Library.Word" "HOL-Library.Signed_Division"
begin

unbundle bit_operations_syntax

section \<open>gocat: chunked range download with retry (main.go)\<close>

text \<open>
  The program fetches a list of URLs, probes each with a HEAD request, downloads it in
  byte ranges of \<open>BatchSizeInMB\<close> MiB with up to \<open>MaxRetry\<close> attempts per range, and
  writes the ranges to standard output in order.

  The embedding keeps the functions of \<^verbatim>\<open>main.go\<close> under their own names. Everything
  outside the program (the HTTP server, URL parsing, the output stream) is an explicit
  environment of functions; everything the program does to the outside (requests sent,
  bytes written, diagnostic lines) is recorded in an explicit \<open>world\<close> that each function
  takes and returns. Go's \<open>int64\<close> is \<open>64 word\<close>, with signed comparison \<open><s\<close> and
  wrapping \<open>+\<close> and \<open>-\<close>; Go's \<open>int\<close> is taken to be 64 bits wide as on every 64-bit
  target. A \<open>[]byte\<close> is a list of bytes, the nil slice being the empty list; an
  \<open>error\<close> is a \<open>go_error option\<close>, \<open>None\<close> being nil.
\<close>

subsection \<open>Values, errors and the outside world\<close>

type_synonym int64 = "64 word"
type_synonym byte = "8 word"

datatype num_err = ErrSyntax | ErrRange

datatype go_error =
    ErrorsNew string                  \<comment> \<open>\<open>errors.New(msg)\<close>\<close>
  | NumError string string num_err    \<comment> \<open>\<open>*strconv.NumError{Func, Num, Err}\<close>\<close>
  | ExternalError string              \<comment> \<open>an error made by net/http, io or os\<close>

datatype go_panic = DivideByZero      \<comment> \<open>runtime error: integer divide by zero\<close>

datatype 'a exec = Returns 'a | Panics go_panic

text \<open>\<open>http.Header\<close> is \<open>map[string][]string\<close>.\<close>

type_synonym header = "string \<rightharpoonup> string list"

datatype http_response =
  Response (StatusCode: nat) (Body: "byte list") (BodyErr: "go_error option")
  \<comment> \<open>the status line, the bytes \<open>io.ReadAll\<close> reads from the body, and the error
      that ends the read (\<open>None\<close> when the body ends normally)\<close>

datatype request =
    HEAD string             \<comment> \<open>\<open>http.Head(url)\<close>\<close>
  | GET string string       \<comment> \<open>\<open>client.Do\<close> of a GET for the URL with this \<open>Range\<close> header\<close>

datatype log_line =
    Downloading int64 int64 int64 int64 string
      \<comment> \<open>"downloading chunk/numChunks [offset, offsetTo) from url"\<close>
  | Retrying int64 int64 go_error
      \<comment> \<open>"retrying i/MaxRetry (err)"\<close>

text \<open>
  The environment: the two flags, and the behaviour of the outside. The server may answer
  the same request differently at different times, so its answers depend on the number
  of requests sent before; a write's outcome depends on the number of writes made before.
  A failing write reports how many bytes of the slice reached the stream.
\<close>

record env =
  MaxRetry :: int64
  BatchSizeInMB :: int64
  http_Head :: "nat \<Rightarrow> string \<Rightarrow> go_error + header"
  http_NewRequest :: "string \<Rightarrow> go_error option"
  client_Do :: "nat \<Rightarrow> string \<Rightarrow> string \<Rightarrow> go_error + http_response"
  writer_Write :: "nat \<Rightarrow> byte list \<Rightarrow> (nat \<times> go_error) option"

text \<open>
  The world: the requests sent so far, the slices written to the sink so far (one entry
  per \<open>Write\<close> call, a failed call leaving the bytes that did reach the stream), and the
  diagnostic lines printed so far (without their timestamps).
\<close>

record world =
  requests :: "request list"
  stdout :: "byte list list"
  stderr :: "log_line list"

subsection \<open>Library functions the program calls\<close>

text \<open>\<open>Header.Get(key)\<close>: the first value stored under the key, or the empty string.
  Both keys the program asks for are already in canonical form.\<close>

definition Header_Get :: "header \<Rightarrow> string \<Rightarrow> string" where
  "Header_Get h key = (case h key of None \<Rightarrow> [] | Some [] \<Rightarrow> [] | Some (v # _) \<Rightarrow> v)"

text \<open>\<open>strconv.ParseUint(s, 10, 64)\<close>: ASCII decimal digits only, at least one, read from
  the left; the first character that is no digit is a syntax error, the first digit that
  takes the value beyond \<open>2^64 - 1\<close> a range error.\<close>

definition digit_val :: "char \<Rightarrow> nat option" where
  "digit_val c = (let k = of_char c :: nat in if 48 \<le> k \<and> k \<le> 57 then Some (k - 48) else None)"

fun ParseUint_loop :: "nat \<Rightarrow> string \<Rightarrow> num_err + nat" where
  "ParseUint_loop n [] = Inr n"
| "ParseUint_loop n (c # cs) =
     (case digit_val c of
        None \<Rightarrow> Inl ErrSyntax
      | Some d \<Rightarrow> if n * 10 + d > 2 ^ 64 - 1 then Inl ErrRange else ParseUint_loop (n * 10 + d) cs)"

definition ParseUint :: "string \<Rightarrow> num_err + nat" where
  "ParseUint s = (if s = [] then Inl ErrSyntax else ParseUint_loop 0 s)"

text \<open>\<open>strconv.ParseInt(s, 10, 64)\<close>: an optional sign, then \<open>ParseUint\<close>; the value must
  lie in \<open>[-2^63, 2^63)\<close>.\<close>

definition ParseInt :: "string \<Rightarrow> go_error + int64" where
  "ParseInt s0 =
     (if s0 = [] then Inl (NumError ''ParseInt'' s0 ErrSyntax)
      else
        let neg = (hd s0 = CHR ''-'');
            s = (if hd s0 = CHR ''+'' \<or> hd s0 = CHR ''-'' then tl s0 else s0)
        in case ParseUint s of
             Inl e \<Rightarrow> Inl (NumError ''ParseInt'' s0 e)
           | Inr un \<Rightarrow>
               if \<not> neg \<and> un \<ge> 2 ^ 63 then Inl (NumError ''ParseInt'' s0 ErrRange)
               else if neg \<and> un > 2 ^ 63 then Inl (NumError ''ParseInt'' s0 ErrRange)
               else Inr (if neg then - word_of_nat un else word_of_nat un))"

text \<open>\<open>fmt.Sprintf("%v", x)\<close> for an \<open>int64\<close>: the decimal digits, with a minus sign
  for a negative value.\<close>

fun FormatUint :: "nat \<Rightarrow> string" where
  "FormatUint n =
     (if n < 10 then [''0123456789'' ! n]
      else FormatUint (n div 10) @ [''0123456789'' ! (n mod 10)])"

declare FormatUint.simps [simp del]

definition FormatInt :: "int64 \<Rightarrow> string" where
  "FormatInt x = (if sint x < 0 then CHR ''-'' # FormatUint (nat (- sint x)) else FormatUint (nat (sint x)))"

text \<open>Go's \<open>/\<close> and \<open>%\<close> on \<open>int64\<close> truncate towards zero; the quotient of the most
  negative value by \<open>-1\<close> wraps. Division by zero panics, which the caller checks.\<close>

definition go_div :: "int64 \<Rightarrow> int64 \<Rightarrow> int64" where
  "go_div a b = word_of_int (sint a sdiv sint b)"

definition go_mod :: "int64 \<Rightarrow> int64 \<Rightarrow> int64" where
  "go_mod a b = word_of_int (sint a smod sint b)"

text \<open>\<open>w.Write(p)\<close> on the output stream.\<close>

definition Write :: "env \<Rightarrow> byte list \<Rightarrow> world \<Rightarrow> go_error option \<times> world" where
  "Write E p w =
     (case writer_Write E (length (stdout w)) p of
        None \<Rightarrow> (None, w\<lparr>stdout := stdout w @ [p]\<rparr>)
      | Some (n, e) \<Rightarrow> (Some e, w\<lparr>stdout := stdout w @ [take n p]\<rparr>))"

subsection \<open>checkHeaders\<close>

definition checkHeaders :: "env \<Rightarrow> string \<Rightarrow> world \<Rightarrow> (int64 \<times> go_error option) \<times> world" where
  "checkHeaders E url w =
     (let w' = w\<lparr>requests := requests w @ [HEAD url]\<rparr> in
      case http_Head E (length (requests w)) url of
        Inl err \<Rightarrow> ((0, Some err), w')
      | Inr resp_Header \<Rightarrow>
          let acceptRanges = Header_Get resp_Header ''Accept-Ranges'' in
          if acceptRanges \<noteq> ''bytes'' then
            ((0, Some (ErrorsNew ''no supported Accept-Ranges found'')), w')
          else
            let contentLenStr = Header_Get resp_Header ''Content-Length'' in
            case ParseInt contentLenStr of
              Inl err \<Rightarrow> ((0, Some err), w')
            | Inr contentLen \<Rightarrow> ((contentLen, None), w'))"

subsection \<open>downloadChunk\<close>

definition downloadChunk ::
  "env \<Rightarrow> string \<Rightarrow> int64 \<Rightarrow> int64 \<Rightarrow> world \<Rightarrow> (byte list \<times> go_error option) \<times> world" where
  "downloadChunk E url offsetFrom offsetTo w =
     (case http_NewRequest E url of
        Some err \<Rightarrow> (([], Some err), w)
      | None \<Rightarrow>
          let rangeStr = ''bytes='' @ FormatInt offsetFrom @ ''-'' @ FormatInt offsetTo;
              w' = w\<lparr>requests := requests w @ [GET url rangeStr]\<rparr>
          in case client_Do E (length (requests w)) url rangeStr of
               Inl err \<Rightarrow> (([], Some err), w')
             | Inr resp \<Rightarrow>
                 (case BodyErr resp of
                    Some err \<Rightarrow> (([], Some err), w')
                  | None \<Rightarrow> ((Body resp, None), w')))"

subsection \<open>downloadChunkWithRetry\<close>

text \<open>The loop of \<open>downloadChunkWithRetry\<close>, from counter \<open>i\<close> with the current values of
  the named results \<open>resp\<close> and \<open>err\<close>. The one-second sleep after a failed attempt is
  not modelled.\<close>

function downloadChunkWithRetry_loop ::
  "env \<Rightarrow> string \<Rightarrow> int64 \<Rightarrow> int64 \<Rightarrow> int64 \<Rightarrow> byte list \<Rightarrow> go_error option \<Rightarrow> world
     \<Rightarrow> (byte list \<times> go_error option) \<times> world" where
  "downloadChunkWithRetry_loop E url offsetFrom offsetTo i resp err w =
     (if i <s MaxRetry E then
        (case downloadChunk E url offsetFrom offsetTo w of
           ((resp', None), w') \<Rightarrow> ((resp', None), w')
         | ((resp', Some e), w') \<Rightarrow>
             downloadChunkWithRetry_loop E url offsetFrom offsetTo (i + 1) resp' (Some e)
               (w'\<lparr>stderr := stderr w' @ [Retrying i (MaxRetry E) e]\<rparr>))
      else ((resp, err), w))"
  by pat_completeness auto
termination
proof (relation "measure (\<lambda>(E, url, offsetFrom, offsetTo, i, resp, err, w). nat (sint (MaxRetry E) - sint i))")
  show "wf (measure (\<lambda>(E, url, offsetFrom, offsetTo, i, resp, err, w). nat (sint (MaxRetry E) - sint i)))"
    by simp
next
  fix E :: env and url :: string and offsetFrom offsetTo i :: int64 and resp rs :: "byte list"
    and err :: "go_error option" and ee :: go_error and wa wb :: world
  assume lt: "i <s MaxRetry E"
  have b: "sint (MaxRetry E) < 2 ^ 63"
    using sint_lt [of "MaxRetry E"] by simp
  have l: "- (2 ^ 63) \<le> sint i"
    using sint_ge [of i] by simp
  have "sint (i + 1) = signed_take_bit 63 (sint i + 1)"
    by (simp add: sint_word_ariths)
  also have "\<dots> = sint i + 1"
    using lt b l by (intro signed_take_bit_int_eq_self) (simp_all add: word_sless_alt)
  finally have s: "sint (i + 1) = sint i + 1" .
  show "((E, url, offsetFrom, offsetTo, i + 1, rs, Some ee, wb\<lparr>stderr := stderr wb @ [Retrying i (MaxRetry E) ee]\<rparr>),
         (E, url, offsetFrom, offsetTo, i, resp, err, wa))
        \<in> measure (\<lambda>(E, url, offsetFrom, offsetTo, i, resp, err, w). nat (sint (MaxRetry E) - sint i))"
    using lt s by (simp add: word_sless_alt)
qed

declare downloadChunkWithRetry_loop.simps [simp del]

definition downloadChunkWithRetry ::
  "env \<Rightarrow> string \<Rightarrow> int64 \<Rightarrow> int64 \<Rightarrow> world \<Rightarrow> (byte list \<times> go_error option) \<times> world" where
  "downloadChunkWithRetry E url offsetFrom offsetTo w =
     downloadChunkWithRetry_loop E url offsetFrom offsetTo 0 [] None w"

subsection \<open>downloadAndWrite\<close>

text \<open>The chunk count that \<open>downloadAndWrite\<close> computes for its progress lines
  (\<open>numChunks\<close>); the caller has checked that \<open>batchSize\<close> is not zero.\<close>

definition numChunks :: "int64 \<Rightarrow> int64 \<Rightarrow> int64" where
  "numChunks contentLen batchSize =
     (let n = go_div contentLen batchSize
      in if 0 <s go_mod contentLen batchSize then n + 1 else n)"

text \<open>The \<open>for offset := int64(0); offset < contentLen\<close> loop, from the current
  \<open>chunk\<close> and \<open>offset\<close>. Nothing in the loop bounds the number of rounds when the
  arithmetic wraps, so the loop is a partial function: \<open>None\<close> is a run that never
  ends.\<close>

partial_function (option) downloadAndWrite_loop ::
  "env \<Rightarrow> string \<Rightarrow> int64 \<Rightarrow> int64 \<Rightarrow> int64 \<Rightarrow> int64 \<Rightarrow> int64 \<Rightarrow> world
     \<Rightarrow> (go_error option \<times> world) option" where
  "downloadAndWrite_loop E url contentLen batchSize nChunks chunk offset w =
     (if offset <s contentLen then
        (let offsetTo = offset + batchSize;
             offsetTo = (if contentLen <s offsetTo then contentLen else offsetTo);
             w1 = w\<lparr>stderr := stderr w @ [Downloading chunk nChunks offset offsetTo url]\<rparr>
         in case downloadChunkWithRetry E url offset (offsetTo - 1) w1 of
              ((resp, Some err), w2) \<Rightarrow> Some (Some err, w2)
            | ((resp, None), w2) \<Rightarrow>
                (case Write E resp w2 of
                   (Some err, w3) \<Rightarrow> Some (Some err, w3)
                 | (None, w3) \<Rightarrow>
                     downloadAndWrite_loop E url contentLen batchSize nChunks (chunk + 1) offsetTo w3))
      else Some (None, w))"

declare downloadAndWrite_loop.simps [code]

definition downloadAndWrite :: "env \<Rightarrow> string \<Rightarrow> world \<Rightarrow> (go_error option exec \<times> world) option" where
  "downloadAndWrite E url w =
     (case checkHeaders E url w of
        ((contentLen, Some err), w0) \<Rightarrow> Some (Returns (Some err), w0)
      | ((contentLen, None), w0) \<Rightarrow>
          let batchSize = push_bit 20 (BatchSizeInMB E) in
          if batchSize = 0 then Some (Panics DivideByZero, w0)
          else
            map_option (\<lambda>(err, w'). (Returns err, w'))
              (downloadAndWrite_loop E url contentLen batchSize (numChunks contentLen batchSize) 1 0 w0))"

subsection \<open>main\<close>

text \<open>The loop of \<open>main\<close> over the resolved list of files. \<open>Returns (Some err)\<close> is
  \<open>log.Fatal(err)\<close>, which ends the process; \<open>Returns None\<close> is reaching the line
  that prints the completion marker.\<close>

fun main_loop :: "env \<Rightarrow> string list \<Rightarrow> world \<Rightarrow> (go_error option exec \<times> world) option" where
  "main_loop E [] w = Some (Returns None, w)"
| "main_loop E (file # files) w =
     (case downloadAndWrite E file w of
        None \<Rightarrow> None
      | Some (Panics p, w') \<Rightarrow> Some (Panics p, w')
      | Some (Returns (Some err), w') \<Rightarrow> Some (Returns (Some err), w')
      | Some (Returns None, w') \<Rightarrow> main_loop E files w')"

subsection \<open>The chunk plan\<close>

text \<open>The half-open ranges \<open>[offset, offsetTo)\<close> that the loop of \<open>downloadAndWrite\<close>
  visits from \<open>offset\<close> on: the same loop with the fetch and the write left out.\<close>

partial_function (option) chunkRanges ::
  "int64 \<Rightarrow> int64 \<Rightarrow> int64 \<Rightarrow> (int64 \<times> int64) list option" where
  "chunkRanges contentLen batchSize offset =
     (if offset <s contentLen then
        (let offsetTo = offset + batchSize;
             offsetTo = (if contentLen <s offsetTo then contentLen else offsetTo)
         in Option.bind (chunkRanges contentLen batchSize offsetTo)
              (\<lambda>rs. Some ((offset, offsetTo) # rs)))
      else Some [])"

declare chunkRanges.simps [code]

text \<open>The body of the loop applied to a given list of ranges in order, stopping at the
  first error: what the loop does once the ranges it will visit are known.\<close>

fun run_chunks ::
  "env \<Rightarrow> string \<Rightarrow> int64 \<Rightarrow> int64 \<Rightarrow> (int64 \<times> int64) list \<Rightarrow> world \<Rightarrow> go_error option \<times> world" where
  "run_chunks E url nChunks chunk [] w = (None, w)"
| "run_chunks E url nChunks chunk ((offset, offsetTo) # rs) w =
     (let w1 = w\<lparr>stderr := stderr w @ [Downloading chunk nChunks offset offsetTo url]\<rparr>
      in case downloadChunkWithRetry E url offset (offsetTo - 1) w1 of
           ((resp, Some err), w2) \<Rightarrow> (Some err, w2)
         | ((resp, None), w2) \<Rightarrow>
             (case Write E resp w2 of
                (Some err, w3) \<Rightarrow> (Some err, w3)
              | (None, w3) \<Rightarrow> run_chunks E url nChunks (chunk + 1) rs w3))"

text \<open>The bytes of a body in the half-open range \<open>[from, to)\<close>.\<close>

definition slice :: "'a list \<Rightarrow> int64 \<Rightarrow> int64 \<Rightarrow> 'a list" where
  "slice xs from to = take (nat (sint to) - nat (sint from)) (drop (nat (sint from)) xs)"

subsection \<open>Notions used to state the properties\<close>

text \<open>The \<open>Range\<close> header that \<open>downloadChunk\<close> builds from its two offsets.\<close>

abbreviation (input) range_header :: "int64 \<Rightarrow> int64 \<Rightarrow> string" where
  "range_header offsetFrom offsetTo \<equiv> ''bytes='' @ FormatInt offsetFrom @ ''-'' @ FormatInt offsetTo"

text \<open>The error, if any, of \<open>client.Do\<close> followed by \<open>io.ReadAll\<close> for a request sent
  when \<open>n\<close> requests have been sent before.\<close>

definition fetch_error :: "env \<Rightarrow> nat \<Rightarrow> string \<Rightarrow> string \<Rightarrow> go_error option" where
  "fetch_error E n url r = (case client_Do E n url r of Inl err \<Rightarrow> Some err | Inr resp \<Rightarrow> BodyErr resp)"

subsection \<open>Example environments\<close>

text \<open>An empty world, and servers used to run the functions on concrete inputs.\<close>

definition w_init :: world where
  "w_init = \<lparr>requests = [], stdout = [], stderr = []\<rparr>"

text \<open>A server that does not announce byte ranges.\<close>

definition E_norange :: env where
  "E_norange = \<lparr>MaxRetry = 100, BatchSizeInMB = 16,
      http_Head = (\<lambda>n url. Inr [''Accept-Ranges'' \<mapsto> [''none''], ''Content-Length'' \<mapsto> [''3'']]),
      http_NewRequest = (\<lambda>url. None),
      client_Do = (\<lambda>n url r. Inr (Response 200 [1, 2, 3] None)),
      writer_Write = (\<lambda>n p. None)\<rparr>"

text \<open>A server that announces byte ranges but no size.\<close>

definition E_nosize :: env where
  "E_nosize = \<lparr>MaxRetry = 100, BatchSizeInMB = 16,
      http_Head = (\<lambda>n url. Inr [''Accept-Ranges'' \<mapsto> [''bytes'']]),
      http_NewRequest = (\<lambda>url. None),
      client_Do = (\<lambda>n url r. Inr (Response 200 [1, 2, 3] None)),
      writer_Write = (\<lambda>n p. None)\<rparr>"

text \<open>A server that announces a negative size.\<close>

definition E_negsize :: env where
  "E_negsize = \<lparr>MaxRetry = 100, BatchSizeInMB = 16,
      http_Head = (\<lambda>n url. Inr [''Accept-Ranges'' \<mapsto> [''bytes''], ''Content-Length'' \<mapsto> [''-5'']]),
      http_NewRequest = (\<lambda>url. None),
      client_Do = (\<lambda>n url r. Inr (Response 200 [1, 2, 3] None)),
      writer_Write = (\<lambda>n p. None)\<rparr>"

text \<open>A server that answers every range request with status 404 and a short body.\<close>

definition E_404 :: env where
  "E_404 = \<lparr>MaxRetry = 100, BatchSizeInMB = 16,
      http_Head = (\<lambda>n url. Inr [''Accept-Ranges'' \<mapsto> [''bytes''], ''Content-Length'' \<mapsto> [''3'']]),
      http_NewRequest = (\<lambda>url. None),
      client_Do = (\<lambda>n url r. Inr (Response 404 [110, 111] None)),
      writer_Write = (\<lambda>n p. None)\<rparr>"

text \<open>A server whose response bodies break off after two bytes.\<close>

definition E_shortread :: env where
  "E_shortread = \<lparr>MaxRetry = 100, BatchSizeInMB = 16,
      http_Head = (\<lambda>n url. Inr [''Accept-Ranges'' \<mapsto> [''bytes''], ''Content-Length'' \<mapsto> [''3'']]),
      http_NewRequest = (\<lambda>url. None),
      client_Do = (\<lambda>n url r. Inr (Response 206 [1, 2] (Some (ExternalError ''unexpected EOF'')))),
      writer_Write = (\<lambda>n p. None)\<rparr>"

text \<open>A run with \<open>-b 0\<close>.\<close>

definition E_zerobatch :: env where
  "E_zerobatch = \<lparr>MaxRetry = 100, BatchSizeInMB = 0,
      http_Head = (\<lambda>n url. Inr [''Accept-Ranges'' \<mapsto> [''bytes''], ''Content-Length'' \<mapsto> [''3'']]),
      http_NewRequest = (\<lambda>url. None),
      client_Do = (\<lambda>n url r. Inr (Response 206 [1, 2, 3] None)),
      writer_Write = (\<lambda>n p. None)\<rparr>"

text \<open>A server that cannot be reached, with \<open>-m 3\<close>.\<close>

definition E_down :: env where
  "E_down = \<lparr>MaxRetry = 3, BatchSizeInMB = 16,
      http_Head = (\<lambda>n url. Inr [''Accept-Ranges'' \<mapsto> [''bytes''], ''Content-Length'' \<mapsto> [''3'']]),
      http_NewRequest = (\<lambda>url. None),
      client_Do = (\<lambda>n url r. Inl (ExternalError (if n = 2 then ''connection reset'' else ''timeout''))),
      writer_Write = (\<lambda>n p. None)\<rparr>"

text \<open>A server that fails the first two requests and then serves a body of three bytes.\<close>

definition E_flaky :: env where
  "E_flaky = \<lparr>MaxRetry = 100, BatchSizeInMB = 1,
      http_Head = (\<lambda>n url. Inr [''Accept-Ranges'' \<mapsto> [''bytes''], ''Content-Length'' \<mapsto> [''3'']]),
      http_NewRequest = (\<lambda>url. None),
      client_Do = (\<lambda>n url r. if n < 2 then Inl (ExternalError ''timeout'') else Inr (Response 206 [1, 2, 3] None)),
      writer_Write = (\<lambda>n p. None)\<rparr>"

text \<open>A healthy server, with \<open>-m 0\<close>.\<close>

definition E_nobudget :: env where
  "E_nobudget = \<lparr>MaxRetry = 0, BatchSizeInMB = 1,
      http_Head = (\<lambda>n url. Inr [''Accept-Ranges'' \<mapsto> [''bytes''], ''Content-Length'' \<mapsto> [''3'']]),
      http_NewRequest = (\<lambda>url. None),
      client_Do = (\<lambda>n url r. Inr (Response 206 [1, 2, 3] None)),
      writer_Write = (\<lambda>n p. None)\<rparr>"

section \<open>Properties\<close>

lemma run_chunks_loop:
  "chunkRanges contentLen batchSize offset = Some rs \<Longrightarrow>
   downloadAndWrite_loop E url contentLen batchSize n chunk offset w = Some (run_chunks E url n chunk rs w)"
proof (induction rs arbitrary: offset chunk w)
  case Nil
  then show ?case
    by (subst downloadAndWrite_loop.simps, subst (asm) chunkRanges.simps)
      (auto simp: Let_def split: if_splits bind_splits)
next
  case (Cons r rs)
  from Cons.prems show ?case
    apply (subst downloadAndWrite_loop.simps)
    apply (subst (asm) chunkRanges.simps)
    apply (auto simp: Let_def Cons.IH split: if_splits bind_splits prod.splits option.splits)
    done
qed

subsection \<open>checkHeaders: the probe\<close>

lemma checkHeaders_requests:
  "snd (checkHeaders E url w) = w\<lparr>requests := requests w @ [HEAD url]\<rparr>"
  by (simp add: checkHeaders_def Let_def split: sum.splits)

text \<open>
  Claim C8. When the probe is answered and the \<open>Accept-Ranges\<close> header is absent or is
  not the string \<open>bytes\<close>, \<open>checkHeaders\<close> fails with the error
  "no supported Accept-Ranges found", and \<open>downloadAndWrite\<close> returns that error at once:
  the only request sent is the probe itself, so no range request is sent, and nothing is
  written.
\<close>

theorem unsupported_range_aborts:
  assumes "http_Head E (length (requests w)) url = Inr h"
    and "h ''Accept-Ranges'' = None \<or> Header_Get h ''Accept-Ranges'' \<noteq> ''bytes''"
  shows "checkHeaders E url w =
           ((0, Some (ErrorsNew ''no supported Accept-Ranges found'')),
            w\<lparr>requests := requests w @ [HEAD url]\<rparr>)
       \<and> downloadAndWrite E url w =
           Some (Returns (Some (ErrorsNew ''no supported Accept-Ranges found'')),
                 w\<lparr>requests := requests w @ [HEAD url]\<rparr>)"
proof -
  from assms(2) have ne: "Header_Get h ''Accept-Ranges'' \<noteq> ''bytes''"
    by (auto simp: Header_Get_def)
  have c: "checkHeaders E url w =
           ((0, Some (ErrorsNew ''no supported Accept-Ranges found'')),
            w\<lparr>requests := requests w @ [HEAD url]\<rparr>)"
    using assms(1) ne by (simp add: checkHeaders_def)
  then show ?thesis
    by (simp add: downloadAndWrite_def)
qed

theorem unsupported_range_aborts_witness:
  "downloadAndWrite E_norange ''http://a/f1'' w_init =
     Some (Returns (Some (ErrorsNew ''no supported Accept-Ranges found'')),
           \<lparr>requests = [HEAD ''http://a/f1''], stdout = [], stderr = []\<rparr>)"
  using unsupported_range_aborts [of E_norange w_init "''http://a/f1''"
      "[''Accept-Ranges'' \<mapsto> [''none''], ''Content-Length'' \<mapsto> [''3'']]"]
  by (simp add: E_norange_def w_init_def Header_Get_def)

subsection \<open>ParseInt reads back what FormatInt prints\<close>

lemma digit_val_digits: "d < 10 \<Longrightarrow> digit_val (''0123456789'' ! d) = Some d"
proof -
  assume "d < 10"
  then have "d \<in> {0,1,2,3,4,5,6,7,8,9}" by auto
  then show ?thesis
    by (auto simp: digit_val_def)
qed

lemma digits_not_sign: "d < 10 \<Longrightarrow> ''0123456789'' ! d \<noteq> CHR ''-'' \<and> ''0123456789'' ! d \<noteq> CHR ''+''"
proof -
  assume "d < 10"
  then have "d \<in> {0,1,2,3,4,5,6,7,8,9}" by auto
  then show ?thesis
    by auto
qed

lemma ParseUint_loop_snoc:
  "ParseUint_loop a (xs @ [c]) =
     (case ParseUint_loop a xs of
        Inl e \<Rightarrow> Inl e
      | Inr m \<Rightarrow> (case digit_val c of
                    None \<Rightarrow> Inl ErrSyntax
                  | Some d \<Rightarrow> if m * 10 + d > 2 ^ 64 - 1 then Inl ErrRange else Inr (m * 10 + d)))"
  by (induction xs arbitrary: a) (auto split: option.splits)

lemma FormatUint_nonempty: "FormatUint n \<noteq> []"
  by (subst FormatUint.simps) simp

lemma hd_FormatUint: "hd (FormatUint n) \<noteq> CHR ''-'' \<and> hd (FormatUint n) \<noteq> CHR ''+''"
proof (induction n rule: FormatUint.induct)
  case (1 n)
  show ?case
  proof (cases "n < 10")
    case True
    then show ?thesis
      using digits_not_sign [of n] by (subst FormatUint.simps, subst (2) FormatUint.simps) simp
  next
    case False
    with 1 show ?thesis
      by (subst FormatUint.simps, subst (2) FormatUint.simps) (simp add: FormatUint_nonempty)
  qed
qed

lemma ParseUint_loop_FormatUint:
  "n < 2 ^ 64 \<Longrightarrow> ParseUint_loop 0 (FormatUint n) = Inr n"
proof (induction n rule: FormatUint.induct)
  case (1 n)
  show ?case
  proof (cases "n < 10")
    case True
    then show ?thesis
      using digit_val_digits [of n] by (subst FormatUint.simps) simp
  next
    case False
    have "n div 10 < 2 ^ 64" using "1.prems" by simp
    with 1 False have ih: "ParseUint_loop 0 (FormatUint (n div 10)) = Inr (n div 10)" by simp
    have d: "digit_val (''0123456789'' ! (n mod 10)) = Some (n mod 10)"
      by (rule digit_val_digits) simp
    have le: "\<not> n div 10 * 10 + n mod 10 > 2 ^ 64 - 1" using "1.prems" by simp
    show ?thesis
      using False ih d le
      by (subst FormatUint.simps) (simp add: ParseUint_loop_snoc del: ParseUint_loop.simps)
  qed
qed

lemma ParseInt_FormatInt: "ParseInt (FormatInt x) = Inr x"
proof (cases "sint x < 0")
  case True
  let ?n = "nat (- sint x)"
  have b: "?n \<le> 2 ^ 63" using sint_ge [of x] by simp
  then have b': "?n < 2 ^ 64" by simp
  have w: "- word_of_nat ?n = x"
    using True by simp
  show ?thesis
    using True b w ParseUint_loop_FormatUint [OF b']
    by (simp add: ParseInt_def FormatInt_def ParseUint_def FormatUint_nonempty)
next
  case False
  let ?n = "nat (sint x)"
  have b: "?n < 2 ^ 63" using sint_lt [of x] by simp
  then have b': "?n < 2 ^ 64" by simp
  have w: "word_of_nat ?n = x"
    using False by simp
  show ?thesis
    using False b w ParseUint_loop_FormatUint [OF b'] hd_FormatUint [of ?n]
    by (simp add: ParseInt_def FormatInt_def ParseUint_def FormatUint_nonempty)
qed

lemma checkHeaders_ok:
  assumes "http_Head E (length (requests w)) url = Inr h"
    and "Header_Get h ''Accept-Ranges'' = ''bytes''"
    and "ParseInt (Header_Get h ''Content-Length'') = Inr x"
  shows "checkHeaders E url w = ((x, None), w\<lparr>requests := requests w @ [HEAD url]\<rparr>)"
  using assms by (simp add: checkHeaders_def)

lemma checkHeaders_parse_error:
  assumes "http_Head E (length (requests w)) url = Inr h"
    and "Header_Get h ''Accept-Ranges'' = ''bytes''"
    and "ParseInt (Header_Get h ''Content-Length'') = Inl err"
  shows "checkHeaders E url w = ((0, Some err), w\<lparr>requests := requests w @ [HEAD url]\<rparr>)"
  using assms by (simp add: checkHeaders_def)

lemma downloadAndWrite_probe_error:
  "checkHeaders E url w = ((x, Some err), w') \<Longrightarrow> downloadAndWrite E url w = Some (Returns (Some err), w')"
  by (simp add: downloadAndWrite_def)

lemma downloadAndWrite_loop_done:
  "\<not> offset <s contentLen \<Longrightarrow>
   downloadAndWrite_loop E url contentLen batchSize n chunk offset w = Some (None, w)"
  by (subst downloadAndWrite_loop.simps) simp

lemma downloadAndWrite_nonpositive_size:
  assumes "checkHeaders E url w = ((x, None), w')" and "x \<le>s 0" and "push_bit 20 (BatchSizeInMB E) \<noteq> 0"
  shows "downloadAndWrite E url w = Some (Returns None, w')"
proof -
  from assms(2) have "\<not> 0 <s x" by (simp add: word_sless_alt word_sle_eq)
  then show ?thesis
    using assms(1,3) by (simp add: downloadAndWrite_def downloadAndWrite_loop_done)
qed

text \<open>
  Claim C7, as the code has it. When the probe is answered with \<open>Accept-Ranges: bytes\<close>
  and \<open>strconv.ParseInt\<close> rejects the \<open>Content-Length\<close> value, as it does the empty
  string of a missing header, \<open>checkHeaders\<close> fails with the parse error and
  \<open>downloadAndWrite\<close> returns it with the probe as the only request sent. Every
  \<open>int64\<close> written in decimal is accepted as the size, a negative one too; with a
  negative size and a batch size that is not zero the download sends no range request,
  writes nothing and returns no error.
\<close>

theorem size_unavailable_aborts:
  assumes "http_Head E (length (requests w)) url = Inr h"
    and "Header_Get h ''Accept-Ranges'' = ''bytes''"
  shows "(h ''Content-Length'' = None \<longrightarrow>
            ParseInt (Header_Get h ''Content-Length'') = Inl (NumError ''ParseInt'' [] ErrSyntax))
       \<and> (\<forall>err. ParseInt (Header_Get h ''Content-Length'') = Inl err \<longrightarrow>
            checkHeaders E url w = ((0, Some err), w\<lparr>requests := requests w @ [HEAD url]\<rparr>)
          \<and> downloadAndWrite E url w = Some (Returns (Some err), w\<lparr>requests := requests w @ [HEAD url]\<rparr>))
       \<and> (\<forall>x. Header_Get h ''Content-Length'' = FormatInt x \<longrightarrow>
            checkHeaders E url w = ((x, None), w\<lparr>requests := requests w @ [HEAD url]\<rparr>))
       \<and> (\<forall>x. Header_Get h ''Content-Length'' = FormatInt x \<and> x <s 0 \<and> push_bit 20 (BatchSizeInMB E) \<noteq> 0 \<longrightarrow>
            downloadAndWrite E url w = Some (Returns None, w\<lparr>requests := requests w @ [HEAD url]\<rparr>))"
proof (intro conjI allI impI)
  assume "h ''Content-Length'' = None"
  then show "ParseInt (Header_Get h ''Content-Length'') = Inl (NumError ''ParseInt'' [] ErrSyntax)"
    by (simp add: Header_Get_def ParseInt_def)
next
  fix err assume p: "ParseInt (Header_Get h ''Content-Length'') = Inl err"
  show c: "checkHeaders E url w = ((0, Some err), w\<lparr>requests := requests w @ [HEAD url]\<rparr>)"
    by (rule checkHeaders_parse_error [OF assms p])
  show "downloadAndWrite E url w = Some (Returns (Some err), w\<lparr>requests := requests w @ [HEAD url]\<rparr>)"
    by (rule downloadAndWrite_probe_error [OF c])
next
  fix x assume "Header_Get h ''Content-Length'' = FormatInt x"
  then show "checkHeaders E url w = ((x, None), w\<lparr>requests := requests w @ [HEAD url]\<rparr>)"
    by (intro checkHeaders_ok [OF assms]) (simp add: ParseInt_FormatInt)
next
  fix x assume a: "Header_Get h ''Content-Length'' = FormatInt x \<and> x <s 0 \<and> push_bit 20 (BatchSizeInMB E) \<noteq> 0"
  then have c: "checkHeaders E url w = ((x, None), w\<lparr>requests := requests w @ [HEAD url]\<rparr>)"
    by (intro checkHeaders_ok [OF assms]) (simp add: ParseInt_FormatInt)
  from a have "x \<le>s 0" by (simp add: word_sless_alt word_sle_eq)
  with a show "downloadAndWrite E url w = Some (Returns None, w\<lparr>requests := requests w @ [HEAD url]\<rparr>)"
    by (intro downloadAndWrite_nonpositive_size [OF c]) simp_all
qed

theorem size_unavailable_aborts_witness:
  "checkHeaders E_nosize ''http://a/f1'' w_init =
     ((0, Some (NumError ''ParseInt'' [] ErrSyntax)),
      \<lparr>requests = [HEAD ''http://a/f1''], stdout = [], stderr = []\<rparr>)
   \<and> downloadAndWrite E_nosize ''http://a/f1'' w_init =
     Some (Returns (Some (NumError ''ParseInt'' [] ErrSyntax)),
           \<lparr>requests = [HEAD ''http://a/f1''], stdout = [], stderr = []\<rparr>)"
  using size_unavailable_aborts [of E_nosize w_init "''http://a/f1''" "[''Accept-Ranges'' \<mapsto> [''bytes'']]"]
  by (simp add: E_nosize_def w_init_def Header_Get_def)

text \<open>A probe answered with \<open>Content-Length: -5\<close> does not fail.\<close>

theorem negative_size_counterexample:
  "http_Head E_negsize 0 ''http://a/f1'' = Inr [''Accept-Ranges'' \<mapsto> [''bytes''], ''Content-Length'' \<mapsto> [''-5'']]
   \<and> checkHeaders E_negsize ''http://a/f1'' w_init =
        ((- 5, None), \<lparr>requests = [HEAD ''http://a/f1''], stdout = [], stderr = []\<rparr>)
   \<and> downloadAndWrite E_negsize ''http://a/f1'' w_init =
        Some (Returns None, \<lparr>requests = [HEAD ''http://a/f1''], stdout = [], stderr = []\<rparr>)"
proof -
  have c: "checkHeaders E_negsize ''http://a/f1'' w_init =
        ((- 5, None), \<lparr>requests = [HEAD ''http://a/f1''], stdout = [], stderr = []\<rparr>)"
    by (simp add: checkHeaders_def E_negsize_def w_init_def Header_Get_def ParseInt_def ParseUint_def digit_val_def)
  have l: "downloadAndWrite_loop E_negsize ''http://a/f1'' (- 5) (push_bit 20 16) n 1 0 w = Some (None, w)" for n w
    by (rule downloadAndWrite_loop_done) (simp add: word_sless_alt)
  have "BatchSizeInMB E_negsize = 16" by (simp add: E_negsize_def)
  then have d: "downloadAndWrite E_negsize ''http://a/f1'' w_init =
        Some (Returns None, \<lparr>requests = [HEAD ''http://a/f1''], stdout = [], stderr = []\<rparr>)"
    unfolding downloadAndWrite_def c using l by simp
  show ?thesis using c d by (simp add: E_negsize_def)
qed

subsection \<open>downloadChunk: one range request\<close>

text \<open>
  Claim C5, as the code has it. \<open>downloadChunk\<close> returns an error and no bytes when
  the request cannot be made, when \<open>client.Do\<close> fails, and when reading the body fails,
  whatever part of the body was read before. The status of the response is not looked at:
  a response whose body is read to its end gives the body and no error, whatever its
  status.
\<close>

theorem range_fetch_errors:
  "(\<forall>err. http_NewRequest E url = Some err \<longrightarrow>
       downloadChunk E url offsetFrom offsetTo w = (([], Some err), w))
   \<and> (\<forall>err. http_NewRequest E url = None
          \<and> client_Do E (length (requests w)) url (''bytes='' @ FormatInt offsetFrom @ ''-'' @ FormatInt offsetTo) = Inl err \<longrightarrow>
       fst (downloadChunk E url offsetFrom offsetTo w) = ([], Some err))
   \<and> (\<forall>status partial err. http_NewRequest E url = None
          \<and> client_Do E (length (requests w)) url (''bytes='' @ FormatInt offsetFrom @ ''-'' @ FormatInt offsetTo)
              = Inr (Response status partial (Some err)) \<longrightarrow>
       fst (downloadChunk E url offsetFrom offsetTo w) = ([], Some err))
   \<and> (\<forall>status body. http_NewRequest E url = None
          \<and> client_Do E (length (requests w)) url (''bytes='' @ FormatInt offsetFrom @ ''-'' @ FormatInt offsetTo)
              = Inr (Response status body None) \<longrightarrow>
       fst (downloadChunk E url offsetFrom offsetTo w) = (body, None))"
  by (simp add: downloadChunk_def Let_def)

theorem range_fetch_errors_witness:
  "fst (downloadChunk E_shortread ''http://a/f1'' 0 2 w_init) = ([], Some (ExternalError ''unexpected EOF''))"
  using range_fetch_errors [of E_shortread "''http://a/f1''" 0 2 w_init]
  by (simp add: E_shortread_def w_init_def FormatInt_def FormatUint.simps)

text \<open>A response with status 404 is returned as the bytes of the chunk.\<close>

theorem status_not_checked_counterexample:
  "client_Do E_404 0 ''http://a/f1'' ''bytes=0-2'' = Inr (Response 404 [110, 111] None)
   \<and> downloadChunk E_404 ''http://a/f1'' 0 2 w_init =
       (([110, 111], None), \<lparr>requests = [GET ''http://a/f1'' ''bytes=0-2''], stdout = [], stderr = []\<rparr>)"
  by (simp add: downloadChunk_def E_404_def w_init_def FormatInt_def FormatUint.simps)

subsection \<open>downloadChunkWithRetry: the retry loop\<close>

lemma sint_succ:
  fixes i M :: int64
  assumes "i <s M"
  shows "sint (i + 1) = sint i + 1"
proof -
  have "sint (i + 1) = signed_take_bit 63 (sint i + 1)"
    by (simp add: sint_word_ariths)
  also have "\<dots> = sint i + 1"
    using assms sint_lt [of M] sint_ge [of i]
    by (intro signed_take_bit_int_eq_self) (simp_all add: word_sless_alt)
  finally show ?thesis .
qed

lemma downloadChunk_world:
  "snd (downloadChunk E url a b w) =
     w\<lparr>requests := requests w @ (if http_NewRequest E url = None then [GET url (range_header a b)] else [])\<rparr>"
  by (simp add: downloadChunk_def Let_def split: option.splits sum.splits)

lemma downloadChunk_result:
  "fst (downloadChunk E url a b w) =
     (case http_NewRequest E url of
        Some err \<Rightarrow> ([], Some err)
      | None \<Rightarrow>
          (case client_Do E (length (requests w)) url (range_header a b) of
             Inl err \<Rightarrow> ([], Some err)
           | Inr resp \<Rightarrow> (case BodyErr resp of Some err \<Rightarrow> ([], Some err) | None \<Rightarrow> (Body resp, None))))"
  by (simp add: downloadChunk_def Let_def split: option.splits sum.splits)

lemma downloadChunk_fails:
  assumes "http_NewRequest E url = None" and "fetch_error E (length (requests w)) url (range_header a b) = Some e"
  shows "downloadChunk E url a b w = (([], Some e), w\<lparr>requests := requests w @ [GET url (range_header a b)]\<rparr>)"
  using assms by (auto simp: downloadChunk_def fetch_error_def Let_def split: sum.splits option.splits)

lemma downloadChunk_succeeds:
  assumes "http_NewRequest E url = None"
    and "client_Do E (length (requests w)) url (range_header a b) = Inr (Response st bs None)"
  shows "downloadChunk E url a b w = ((bs, None), w\<lparr>requests := requests w @ [GET url (range_header a b)]\<rparr>)"
  using assms by (auto simp: downloadChunk_def Let_def)

lemma downloadChunk_no_request:
  assumes "http_NewRequest E url = Some e"
  shows "downloadChunk E url a b w = (([], Some e), w)"
  using assms by (simp add: downloadChunk_def)

lemma retry_loop_stop:
  "\<not> i <s MaxRetry E \<Longrightarrow> downloadChunkWithRetry_loop E url a b i resp err w = ((resp, err), w)"
  by (subst downloadChunkWithRetry_loop.simps) simp

lemma retry_loop_fail_step:
  assumes "i <s MaxRetry E" and "downloadChunk E url a b w = ((resp', Some e), w')"
  shows "downloadChunkWithRetry_loop E url a b i resp err w =
         downloadChunkWithRetry_loop E url a b (i + 1) resp' (Some e)
           (w'\<lparr>stderr := stderr w' @ [Retrying i (MaxRetry E) e]\<rparr>)"
  using assms by (subst downloadChunkWithRetry_loop.simps) simp

lemma retry_loop_success_step:
  assumes "i <s MaxRetry E" and "downloadChunk E url a b w = ((resp', None), w')"
  shows "downloadChunkWithRetry_loop E url a b i resp err w = ((resp', None), w')"
  using assms by (subst downloadChunkWithRetry_loop.simps) simp

lemma upt_map_shift: "map f [0..<Suc m] = f 0 # map (\<lambda>j. f (Suc j)) [0..<m]"
  by (simp only: upt_conv_Cons [of 0 "Suc m"] map_Suc_upt [symmetric]) (simp add: comp_def)

lemma retry_loop_all_fail:
  assumes nr: "http_NewRequest E url = None"
  shows "m = nat (sint (MaxRetry E) - sint i) \<Longrightarrow>
     \<forall>j<m. fetch_error E (length (requests w) + j) url (range_header a b) \<noteq> None \<Longrightarrow>
     downloadChunkWithRetry_loop E url a b i resp err w =
       ((if m = 0 then resp else [],
         if m = 0 then err else fetch_error E (length (requests w) + m - 1) url (range_header a b)),
        w\<lparr>requests := requests w @ replicate m (GET url (range_header a b)),
          stderr := stderr w @
            map (\<lambda>j. Retrying (i + of_nat j) (MaxRetry E)
                       (the (fetch_error E (length (requests w) + j) url (range_header a b)))) [0..<m]\<rparr>)"
proof (induction m arbitrary: i w resp err)
  case 0
  then have "\<not> i <s MaxRetry E" by (simp add: word_sless_alt)
  then show ?case by (simp add: retry_loop_stop)
next
  case (Suc m)
  from Suc.prems(1) have lt: "i <s MaxRetry E" by (simp add: word_sless_alt)
  from Suc.prems(2) obtain e where e: "fetch_error E (length (requests w)) url (range_header a b) = Some e"
    by (metis add.right_neutral not_None_eq zero_less_Suc)
  let ?w1 = "w\<lparr>requests := requests w @ [GET url (range_header a b)]\<rparr>"
  let ?w2 = "?w1\<lparr>stderr := stderr ?w1 @ [Retrying i (MaxRetry E) e]\<rparr>"
  have m: "m = nat (sint (MaxRetry E) - sint (i + 1))"
    using Suc.prems(1) sint_succ [OF lt] by simp
  have f: "\<forall>j<m. fetch_error E (length (requests ?w2) + j) url (range_header a b) \<noteq> None"
    using Suc.prems(2) by auto
  have step: "downloadChunkWithRetry_loop E url a b i resp err w =
      downloadChunkWithRetry_loop E url a b (i + 1) [] (Some e) ?w2"
    by (rule retry_loop_fail_step [OF lt downloadChunk_fails [OF nr e]])
  show ?case
    unfolding step Suc.IH [OF m f]
    using e by (simp add: upt_map_shift replicate_append_same add.assoc del: upt_Suc)
qed

lemma retry_loop_no_request:
  assumes nr: "http_NewRequest E url = Some e"
  shows "m = nat (sint (MaxRetry E) - sint i) \<Longrightarrow>
     downloadChunkWithRetry_loop E url a b i resp err w =
       ((if m = 0 then resp else [], if m = 0 then err else Some e),
        w\<lparr>stderr := stderr w @ map (\<lambda>j. Retrying (i + of_nat j) (MaxRetry E) e) [0..<m]\<rparr>)"
proof (induction m arbitrary: i w resp err)
  case 0
  then have "\<not> i <s MaxRetry E" by (simp add: word_sless_alt)
  then show ?case by (simp add: retry_loop_stop)
next
  case (Suc m)
  from Suc.prems(1) have lt: "i <s MaxRetry E" by (simp add: word_sless_alt)
  let ?w2 = "w\<lparr>stderr := stderr w @ [Retrying i (MaxRetry E) e]\<rparr>"
  have m: "m = nat (sint (MaxRetry E) - sint (i + 1))"
    using Suc.prems(1) sint_succ [OF lt] by simp
  have step: "downloadChunkWithRetry_loop E url a b i resp err w =
      downloadChunkWithRetry_loop E url a b (i + 1) [] (Some e) ?w2"
    by (rule retry_loop_fail_step [OF lt downloadChunk_no_request [OF nr]])
  show ?case
    unfolding step Suc.IH [OF m]
    by (simp add: upt_map_shift add.assoc del: upt_Suc)
qed

lemma retry_loop_then_success:
  assumes nr: "http_NewRequest E url = None"
  shows "int k < sint (MaxRetry E) - sint i \<Longrightarrow>
     \<forall>j<k. fetch_error E (length (requests w) + j) url (range_header a b) \<noteq> None \<Longrightarrow>
     client_Do E (length (requests w) + k) url (range_header a b) = Inr (Response st bs None) \<Longrightarrow>
     downloadChunkWithRetry_loop E url a b i resp err w =
       ((bs, None),
        w\<lparr>requests := requests w @ replicate (Suc k) (GET url (range_header a b)),
          stderr := stderr w @
            map (\<lambda>j. Retrying (i + of_nat j) (MaxRetry E)
                       (the (fetch_error E (length (requests w) + j) url (range_header a b)))) [0..<k]\<rparr>)"
proof (induction k arbitrary: i w resp err)
  case 0
  then have lt: "i <s MaxRetry E" by (simp add: word_sless_alt)
  from 0 have ok: "client_Do E (length (requests w)) url (range_header a b) = Inr (Response st bs None)"
    by simp
  show ?case
    by (simp add: retry_loop_success_step [OF lt downloadChunk_succeeds [OF nr ok]])
next
  case (Suc k)
  from Suc.prems(1) have lt: "i <s MaxRetry E" by (simp add: word_sless_alt)
  from Suc.prems(2) obtain e where e: "fetch_error E (length (requests w)) url (range_header a b) = Some e"
    by (metis add.right_neutral not_None_eq zero_less_Suc)
  let ?w1 = "w\<lparr>requests := requests w @ [GET url (range_header a b)]\<rparr>"
  let ?w2 = "?w1\<lparr>stderr := stderr ?w1 @ [Retrying i (MaxRetry E) e]\<rparr>"
  have k: "int k < sint (MaxRetry E) - sint (i + 1)"
    using Suc.prems(1) sint_succ [OF lt] by simp
  have f: "\<forall>j<k. fetch_error E (length (requests ?w2) + j) url (range_header a b) \<noteq> None"
    using Suc.prems(2) by auto
  have ok: "client_Do E (length (requests ?w2) + k) url (range_header a b) = Inr (Response st bs None)"
    using Suc.prems(3) by simp
  have step: "downloadChunkWithRetry_loop E url a b i resp err w =
      downloadChunkWithRetry_loop E url a b (i + 1) [] (Some e) ?w2"
    by (rule retry_loop_fail_step [OF lt downloadChunk_fails [OF nr e]])
  show ?case
    unfolding step Suc.IH [OF k f ok]
    using e by (simp add: upt_map_shift replicate_append_same add.assoc del: upt_Suc)
qed

text \<open>
  Claim C3. With \<open>MaxRetry \<ge> 1\<close>, when every one of the \<open>MaxRetry\<close> attempts fails,
  \<open>downloadChunkWithRetry\<close> makes exactly \<open>MaxRetry\<close> attempts and returns the error of
  the last one with no bytes: the requests sent are exactly \<open>MaxRetry\<close> copies of the
  range request, the lines printed are the retry lines number \<open>0\<close> to \<open>MaxRetry - 1\<close>
  with the errors of the attempts in order, and the error returned is that of the request
  sent last. When the request cannot even be created, each of the \<open>MaxRetry\<close> attempts
  fails with that error before anything is sent.
\<close>

theorem retry_exhausted:
  assumes "1 \<le> sint (MaxRetry E)"
  shows "(http_NewRequest E url = None \<and>
          (\<forall>j < nat (sint (MaxRetry E)).
              fetch_error E (length (requests w) + j) url (range_header offsetFrom offsetTo) \<noteq> None) \<longrightarrow>
          downloadChunkWithRetry E url offsetFrom offsetTo w =
            (([], fetch_error E (length (requests w) + nat (sint (MaxRetry E)) - 1) url
                    (range_header offsetFrom offsetTo)),
             w\<lparr>requests := requests w @
                  replicate (nat (sint (MaxRetry E))) (GET url (range_header offsetFrom offsetTo)),
               stderr := stderr w @
                  map (\<lambda>j. Retrying (of_nat j) (MaxRetry E)
                        (the (fetch_error E (length (requests w) + j) url (range_header offsetFrom offsetTo))))
                    [0..<nat (sint (MaxRetry E))]\<rparr>))
       \<and> (\<forall>e. http_NewRequest E url = Some e \<longrightarrow>
          downloadChunkWithRetry E url offsetFrom offsetTo w =
            (([], Some e),
             w\<lparr>stderr := stderr w @
                  map (\<lambda>j. Retrying (of_nat j) (MaxRetry E) e) [0..<nat (sint (MaxRetry E))]\<rparr>))"
proof -
  have m: "nat (sint (MaxRetry E)) = nat (sint (MaxRetry E) - sint (0 :: int64))" by simp
  have pos: "nat (sint (MaxRetry E)) \<noteq> 0" using assms by simp
  show ?thesis
  proof (intro conjI allI impI)
    assume a: "http_NewRequest E url = None \<and>
          (\<forall>j < nat (sint (MaxRetry E)).
              fetch_error E (length (requests w) + j) url (range_header offsetFrom offsetTo) \<noteq> None)"
    show "downloadChunkWithRetry E url offsetFrom offsetTo w =
            (([], fetch_error E (length (requests w) + nat (sint (MaxRetry E)) - 1) url
                    (range_header offsetFrom offsetTo)),
             w\<lparr>requests := requests w @
                  replicate (nat (sint (MaxRetry E))) (GET url (range_header offsetFrom offsetTo)),
               stderr := stderr w @
                  map (\<lambda>j. Retrying (of_nat j) (MaxRetry E)
                        (the (fetch_error E (length (requests w) + j) url (range_header offsetFrom offsetTo))))
                    [0..<nat (sint (MaxRetry E))]\<rparr>)"
      unfolding downloadChunkWithRetry_def
      using retry_loop_all_fail [where i = 0 and resp = "[]" and err = None, OF conjunct1 [OF a] m conjunct2 [OF a]] pos
      by simp
  next
    fix e assume nr: "http_NewRequest E url = Some e"
    show "downloadChunkWithRetry E url offsetFrom offsetTo w =
            (([], Some e),
             w\<lparr>stderr := stderr w @
                  map (\<lambda>j. Retrying (of_nat j) (MaxRetry E) e) [0..<nat (sint (MaxRetry E))]\<rparr>)"
      unfolding downloadChunkWithRetry_def
      using retry_loop_no_request [where i = 0 and resp = "[]" and err = None, OF nr m] pos
      by simp
  qed
qed

theorem retry_exhausted_witness:
  "downloadChunkWithRetry E_down ''http://a/f1'' 0 2 w_init =
     (([], Some (ExternalError ''connection reset'')),
      \<lparr>requests = [GET ''http://a/f1'' ''bytes=0-2'', GET ''http://a/f1'' ''bytes=0-2'',
                   GET ''http://a/f1'' ''bytes=0-2''],
       stdout = [],
       stderr = [Retrying 0 3 (ExternalError ''timeout''), Retrying 1 3 (ExternalError ''timeout''),
                 Retrying 2 3 (ExternalError ''connection reset'')]\<rparr>)"
proof -
  have n: "nat (sint (MaxRetry E_down)) = 3" by (simp add: E_down_def)
  have u: "[0..<3] = [0, 1, 2]" by (simp add: upt_rec)
  have r: "replicate 3 x = [x, x, x]" for x :: request by (simp add: numeral_3_eq_3)
  have h: "1 \<le> sint (MaxRetry E_down)" by (simp add: E_down_def)
  have f: "FormatInt 0 = ''0''" "FormatInt 2 = ''2''" by (simp_all add: FormatInt_def FormatUint.simps)
  show ?thesis
    using retry_exhausted [OF h, of "''http://a/f1''" w_init 0 2]
    unfolding n u r f
    by (simp add: E_down_def w_init_def fetch_error_def)
qed

text \<open>
  Claim C4. With \<open>0 \<le> k < MaxRetry\<close>, when the first \<open>k\<close> attempts fail and attempt
  \<open>k + 1\<close> is answered with a body that is read to its end, \<open>downloadChunkWithRetry\<close>
  returns that body and no error after exactly \<open>k + 1\<close> requests and \<open>k\<close> retry lines.
\<close>

theorem retry_until_success:
  assumes "int k < sint (MaxRetry E)"
    and "http_NewRequest E url = None"
    and "\<forall>j<k. fetch_error E (length (requests w) + j) url (range_header offsetFrom offsetTo) \<noteq> None"
    and "client_Do E (length (requests w) + k) url (range_header offsetFrom offsetTo)
           = Inr (Response status bytes None)"
  shows "downloadChunkWithRetry E url offsetFrom offsetTo w =
           ((bytes, None),
            w\<lparr>requests := requests w @ replicate (k + 1) (GET url (range_header offsetFrom offsetTo)),
              stderr := stderr w @
                map (\<lambda>j. Retrying (of_nat j) (MaxRetry E)
                      (the (fetch_error E (length (requests w) + j) url (range_header offsetFrom offsetTo))))
                  [0..<k]\<rparr>)"
  unfolding downloadChunkWithRetry_def
  using retry_loop_then_success [where i = 0 and resp = "[]" and err = None, OF assms(2) _ assms(3) assms(4)] assms(1)
  by simp

theorem retry_until_success_witness:
  "downloadChunkWithRetry E_flaky ''http://a/f1'' 0 2 w_init =
     (([1, 2, 3], None),
      \<lparr>requests = [GET ''http://a/f1'' ''bytes=0-2'', GET ''http://a/f1'' ''bytes=0-2'',
                   GET ''http://a/f1'' ''bytes=0-2''],
       stdout = [],
       stderr = [Retrying 0 100 (ExternalError ''timeout''), Retrying 1 100 (ExternalError ''timeout'')]\<rparr>)"
proof -
  have u: "[0..<2] = [0, 1]" by (simp add: upt_rec)
  have r: "replicate (2 + 1) x = [x, x, x]" for x :: request by (simp add: numeral_2_eq_2)
  have f: "FormatInt 0 = ''0''" "FormatInt 2 = ''2''" by (simp_all add: FormatInt_def FormatUint.simps)
  show ?thesis
    using retry_until_success [of 2 E_flaky "''http://a/f1''" w_init 0 2 206 "[1, 2, 3]"]
    unfolding u r f
    by (simp add: E_flaky_def w_init_def fetch_error_def)
qed

lemma no_attempts_without_budget:
  assumes "sint (MaxRetry E) \<le> 0"
  shows "downloadChunkWithRetry E url offsetFrom offsetTo w = (([], None), w)"
  unfolding downloadChunkWithRetry_def
  using assms by (intro retry_loop_stop) (simp add: word_sless_alt)

lemma run_chunks_no_budget:
  assumes "sint (MaxRetry E) \<le> 0" and "\<forall>n. writer_Write E n [] = None"
  shows "run_chunks E url nChunks chunk rs w =
     (None, w\<lparr>stdout := stdout w @ replicate (length rs) [],
              stderr := stderr w @
                map (\<lambda>(j, offset, offsetTo). Downloading (chunk + of_nat j) nChunks offset offsetTo url)
                  (enumerate 0 rs)\<rparr>)"
proof (induction rs arbitrary: chunk w)
  case Nil
  show ?case by simp
next
  case (Cons r rs)
  obtain offset offsetTo where r: "r = (offset, offsetTo)" by (cases r)
  show ?case
    unfolding r
    by (simp add: no_attempts_without_budget [OF assms(1)] Write_def assms(2) Cons.IH
        enumerate_Suc_eq replicate_append_same comp_def case_prod_beta add.assoc)
qed

text \<open>
  Claim C9. With \<open>MaxRetry \<le> 0\<close> the loop of \<open>downloadChunkWithRetry\<close> does not run:
  the call sends nothing and returns nil bytes and a nil error. \<open>downloadAndWrite\<close> then
  takes every chunk for fetched: when the probe succeeds, the batch size is not zero, the
  loop visits the ranges \<open>rs\<close> and the sink accepts empty writes, it sends no range
  request, writes one empty slice per range and returns no error.
\<close>

theorem no_budget_writes_nothing:
  assumes "sint (MaxRetry E) \<le> 0"
  shows "downloadChunkWithRetry E url offsetFrom offsetTo w = (([], None), w)
    \<and> (\<forall>contentLen rs.
          fst (checkHeaders E url w) = (contentLen, None)
          \<and> push_bit 20 (BatchSizeInMB E) \<noteq> 0
          \<and> chunkRanges contentLen (push_bit 20 (BatchSizeInMB E)) 0 = Some rs
          \<and> (\<forall>n. writer_Write E n [] = None) \<longrightarrow>
          downloadAndWrite E url w =
            Some (Returns None,
                  w\<lparr>requests := requests w @ [HEAD url],
                    stdout := stdout w @ replicate (length rs) [],
                    stderr := stderr w @
                      map (\<lambda>(j, offset, offsetTo).
                             Downloading (1 + of_nat j)
                               (numChunks contentLen (push_bit 20 (BatchSizeInMB E))) offset offsetTo url)
                        (enumerate 0 rs)\<rparr>))"
proof (intro conjI allI impI)
  show "downloadChunkWithRetry E url offsetFrom offsetTo w = (([], None), w)"
    by (rule no_attempts_without_budget [OF assms])
next
  fix contentLen rs
  assume a: "fst (checkHeaders E url w) = (contentLen, None)
          \<and> push_bit 20 (BatchSizeInMB E) \<noteq> 0
          \<and> chunkRanges contentLen (push_bit 20 (BatchSizeInMB E)) 0 = Some rs
          \<and> (\<forall>n. writer_Write E n [] = None)"
  then have c: "checkHeaders E url w = ((contentLen, None), w\<lparr>requests := requests w @ [HEAD url]\<rparr>)"
    using checkHeaders_requests [of E url w] by (cases "checkHeaders E url w") simp
  from a have w: "\<forall>n. writer_Write E n [] = None" by simp
  from a have cr: "chunkRanges contentLen (push_bit 20 (BatchSizeInMB E)) 0 = Some rs" by simp
  show "downloadAndWrite E url w =
            Some (Returns None,
                  w\<lparr>requests := requests w @ [HEAD url],
                    stdout := stdout w @ replicate (length rs) [],
                    stderr := stderr w @
                      map (\<lambda>(j, offset, offsetTo).
                             Downloading (1 + of_nat j)
                               (numChunks contentLen (push_bit 20 (BatchSizeInMB E))) offset offsetTo url)
                        (enumerate 0 rs)\<rparr>)"
    using a
    by (simp add: downloadAndWrite_def c run_chunks_loop [OF cr] run_chunks_no_budget [OF assms w])
qed

theorem no_budget_writes_nothing_witness:
  "downloadAndWrite E_nobudget ''http://a/f1'' w_init =
     Some (Returns None,
           \<lparr>requests = [HEAD ''http://a/f1''], stdout = [[]],
            stderr = [Downloading 1 1 0 3 ''http://a/f1'']\<rparr>)"
proof -
  have h: "sint (MaxRetry E_nobudget) \<le> 0" by (simp add: E_nobudget_def)
  have c: "fst (checkHeaders E_nobudget ''http://a/f1'' w_init) = (3, None)"
    by (simp add: checkHeaders_def E_nobudget_def w_init_def Header_Get_def ParseInt_def ParseUint_def digit_val_def)
  have b: "push_bit 20 (BatchSizeInMB E_nobudget) = 1048576" by (simp add: E_nobudget_def)
  have p: "chunkRanges 3 1048576 0 = Some [(0, 3)]"
    by (simp add: chunkRanges.simps word_sless_alt)
  have n: "numChunks 3 1048576 = 1"
    by (simp add: numChunks_def go_div_def go_mod_def signed_divide_int_def signed_modulo_int_def word_sless_alt)
  have e: "enumerate 0 [(0 :: int64, 3 :: int64)] = [(0, 0, 3)]" by simp
  show ?thesis
    using no_budget_writes_nothing [OF h, of "''http://a/f1''" 0 0 w_init, THEN conjunct2, rule_format, of 3 "[(0, 3)]"]
    unfolding b
    using c p by (simp add: n E_nobudget_def w_init_def)
qed

end
